theory Spec2Isabelle
  imports Complex_Main "HOL-Library.Sublist"
begin

section \<open>OpenPlayground: the project gallery of \<^verbatim>\<open>src/js/app.js\<close>\<close>

text \<open>
  The gallery keeps a list of project records, filters it by category and search text,
  sorts it, cuts out one page and renders that page. The development below embeds the
  list pipeline of \<^verbatim>\<open>renderProjects\<close>, the event handlers of
  \<^verbatim>\<open>setupEventListeners\<close>, \<^verbatim>\<open>fetchProjects\<close>,
  \<^verbatim>\<open>updateCategoryCounts\<close> and the start-up barrier at the end of the file.
\<close>

subsection \<open>JavaScript primitives\<close>

text \<open>
  Strings are \<^typ>\<open>string\<close>: a title or category is read as its sequence of bytes.
  \<^verbatim>\<open>toLowerCase\<close> is modelled on the ASCII letters (code 65 to 90, where adding 32
  sets bit 5); every other character is left as it is.
\<close>

definition lower_char :: "char \<Rightarrow> char" where
  "lower_char c =
     (if 65 \<le> (of_char c :: nat) \<and> (of_char c :: nat) \<le> 90
      then (case c of Char b0 b1 b2 b3 b4 b5 b6 b7 \<Rightarrow> Char b0 b1 b2 b3 b4 True b6 b7)
      else c)"

definition toLowerCase :: "string \<Rightarrow> string" where
  "toLowerCase s = map lower_char s"

text \<open>
  \<^verbatim>\<open>Array.prototype.slice(start, end)\<close> on integer arguments: a negative index counts
  from the end, both indices are clamped to the array, and an empty range gives the
  empty array.
\<close>

definition js_slice :: "'a list \<Rightarrow> int \<Rightarrow> int \<Rightarrow> 'a list" where
  "js_slice xs start fin =
     (let len = int (length xs);
          k = (if start < 0 then max (len + start) 0 else min start len);
          final = (if fin < 0 then max (len + fin) 0 else min fin len)
      in take (nat (max (final - k) 0)) (drop (nat k) xs))"

text \<open>
  \<^verbatim>\<open>Array.prototype.sort(compare)\<close> is a stable sort: of two elements that compare
  as equal, the one that came first stays first. It is modelled as insertion from the
  right, which is what every stable sort computes when \<open>compare\<close> is a consistent
  comparator.
\<close>

fun insert_by :: "('a \<Rightarrow> 'a \<Rightarrow> int) \<Rightarrow> 'a \<Rightarrow> 'a list \<Rightarrow> 'a list" where
  "insert_by compare x [] = [x]"
| "insert_by compare x (y # ys) =
     (if compare x y \<le> 0 then x # y # ys else y # insert_by compare x ys)"

definition js_sort :: "('a \<Rightarrow> 'a \<Rightarrow> int) \<Rightarrow> 'a list \<Rightarrow> 'a list" where
  "js_sort compare xs = foldr (insert_by compare) xs []"

subsection \<open>Project records\<close>

text \<open>
  A record of \<^verbatim>\<open>projects.json\<close>. The category may be missing (\<open>None\<close>) or empty;
  the presentation fields (icon, cover) play no part in filtering, sorting or paging.
\<close>

record project =
  title :: string
  description :: string
  category :: "string option"
  tech :: "string list"
  link :: string

subsection \<open>Pagination (\<^verbatim>\<open>renderProjects\<close>, lines 355 to 359)\<close>

text \<open>
  \<^verbatim>\<open>
  const totalItems = filteredProjects.length;
  const totalPages = Math.ceil(totalItems / itemsPerPage);
  const start = (currentPage - 1) * itemsPerPage;
  const paginatedItems = filteredProjects.slice(start, start + itemsPerPage);
  \<close>
  The quotient is a floating-point number in the source; for an array length and a
  positive page size it is exact enough for \<^verbatim>\<open>Math.ceil\<close> to return the ceiling of
  the rational quotient, which is what the model computes. \<open>itemsPerPage\<close> is the
  constant 9 in the source and a parameter here.
\<close>

definition paginate :: "'a list \<Rightarrow> int \<Rightarrow> int \<Rightarrow> 'a list \<times> int" where
  "paginate filteredProjects itemsPerPage currentPage =
     (let totalItems = int (length filteredProjects);
          totalPages = \<lceil>real_of_int totalItems / real_of_int itemsPerPage\<rceil>;
          start = (currentPage - 1) * itemsPerPage;
          paginatedItems = js_slice filteredProjects start (start + itemsPerPage)
      in (paginatedItems, totalPages))"

subsection \<open>The visibility engine\<close>

text \<open>
  \<^verbatim>\<open>String.prototype.includes\<close>: the query occurs in the string at some position.
\<close>

fun js_includes :: "string \<Rightarrow> string \<Rightarrow> bool" where
  "js_includes [] q = (q = [])"
| "js_includes (c # s) q = (prefix q (c # s) \<or> js_includes s q)"

text \<open>
  Modelled from the spec: the class \<^verbatim>\<open>ProjectVisibilityEngine\<close> of
  \<^verbatim>\<open>core/projectVisibilityEngine.js\<close>, which \<^verbatim>\<open>app.js\<close> imports and which is not
  among the sources. The engine state holds the record sequence, the search text
  (default empty) and the category (default \<open>all\<close>).
\<close>

record engine =
  records :: "project list"
  searchQuery :: string
  engineCategory :: string

text \<open>Modelled from the spec: \<^verbatim>\<open>construct(records)\<close> stores the sequence and sets the defaults.\<close>

definition construct :: "project list \<Rightarrow> engine" where
  "construct rs = \<lparr>records = rs, searchQuery = [], engineCategory = ''all''\<rparr>"

text \<open>Modelled from the spec: \<^verbatim>\<open>setSearchQuery(text)\<close> stores the text as given.\<close>

definition setSearchQuery :: "string \<Rightarrow> engine \<Rightarrow> engine" where
  "setSearchQuery txt e = e\<lparr>searchQuery := txt\<rparr>"

text \<open>Modelled from the spec: \<^verbatim>\<open>setCategory(category)\<close> stores the token verbatim.\<close>

definition setCategory :: "string \<Rightarrow> engine \<Rightarrow> engine" where
  "setCategory c e = e\<lparr>engineCategory := c\<rparr>"

text \<open>
  Modelled from the spec: \<^verbatim>\<open>reset()\<close> restores the empty search text and the category
  \<open>all\<close>, and leaves the records alone.
\<close>

definition reset :: "engine \<Rightarrow> engine" where
  "reset e = e\<lparr>searchQuery := [], engineCategory := ''all''\<rparr>"

text \<open>
  Modelled from the spec: the category of a record as the engine compares it; an absent
  or empty category is treated as \<open>unknown\<close> (data model of the spec).
\<close>

definition recordCategory :: "project \<Rightarrow> string" where
  "recordCategory p =
     (case category p of None \<Rightarrow> ''unknown'' | Some c \<Rightarrow> if c = [] then ''unknown'' else c)"

text \<open>Modelled from the spec: the category predicate of \<^verbatim>\<open>getVisibleProjects\<close>.\<close>

definition categoryPredicate :: "engine \<Rightarrow> project \<Rightarrow> bool" where
  "categoryPredicate e p \<longleftrightarrow>
     engineCategory e = ''all'' \<or> toLowerCase (recordCategory p) = toLowerCase (engineCategory e)"

text \<open>Modelled from the spec: the search predicate of \<^verbatim>\<open>getVisibleProjects\<close>.\<close>

definition searchPredicate :: "engine \<Rightarrow> project \<Rightarrow> bool" where
  "searchPredicate e p \<longleftrightarrow>
     searchQuery e = [] \<or> js_includes (toLowerCase (title p)) (toLowerCase (searchQuery e))"

text \<open>
  Modelled from the spec: \<^verbatim>\<open>getVisibleProjects()\<close> scans the store once, front to back,
  and collects the records that pass both predicates.
\<close>

fun visibleScan :: "engine \<Rightarrow> project list \<Rightarrow> project list" where
  "visibleScan e [] = []"
| "visibleScan e (p # ps) =
     (if categoryPredicate e p \<and> searchPredicate e p then p # visibleScan e ps
      else visibleScan e ps)"

definition getVisibleProjects :: "engine \<Rightarrow> project list" where
  "getVisibleProjects e = visibleScan e (records e)"

text \<open>Calls made on an engine between its construction and a reset.\<close>

datatype engine_call = SetSearchQuery string | SetCategory string

fun applyCall :: "engine \<Rightarrow> engine_call \<Rightarrow> engine" where
  "applyCall e (SetSearchQuery txt) = setSearchQuery txt e"
| "applyCall e (SetCategory c) = setCategory c e"

subsection \<open>Filtering and sorting in \<^verbatim>\<open>renderProjects\<close>\<close>

text \<open>
  The fallback filter, used while no engine exists (lines 333 to 339):
  \<^verbatim>\<open>
  if (currentCategory !== "all") {
      filteredProjects = filteredProjects.filter(
          (p) => (p.category ? p.category.toLowerCase() : "") === currentCategory.toLowerCase()
      );
  }
  \<close>
  A missing category and the empty string are both falsy.
\<close>

definition fallbackFilter :: "string \<Rightarrow> project list \<Rightarrow> project list" where
  "fallbackFilter currentCategory filteredProjects =
     (if currentCategory \<noteq> ''all''
      then filter (\<lambda>p. (case category p of None \<Rightarrow> []
                          | Some c \<Rightarrow> if c = [] then [] else toLowerCase c)
                       = toLowerCase currentCategory) filteredProjects
      else filteredProjects)"

text \<open>
  The sort switch (lines 343 to 353). \<open>localeCompare\<close> is the platform's
  \<^verbatim>\<open>String.prototype.localeCompare\<close>, a parameter of the model: its order depends on the
  locale and is not part of the sources. A sort mode other than \<open>az\<close>, \<open>za\<close> and
  \<open>newest\<close> falls through the switch.
\<close>

definition sortProjects ::
  "(string \<Rightarrow> string \<Rightarrow> int) \<Rightarrow> string \<Rightarrow> project list \<Rightarrow> project list" where
  "sortProjects localeCompare currentSort filteredProjects =
     (if currentSort = ''az''
        then js_sort (\<lambda>a b. localeCompare (title a) (title b)) filteredProjects
      else if currentSort = ''za''
        then js_sort (\<lambda>a b. localeCompare (title b) (title a)) filteredProjects
      else if currentSort = ''newest''
        then rev filteredProjects
      else filteredProjects)"

subsection \<open>Arrays as objects\<close>

text \<open>
  \<^verbatim>\<open>sort\<close> and \<^verbatim>\<open>reverse\<close> work in place, so which array they touch matters. Here
  arrays live in a store at references; \<open>newArray\<close> allocates.
\<close>

record array_store =
  arrays :: "nat \<Rightarrow> project list"
  nextRef :: nat

definition newArray :: "project list \<Rightarrow> array_store \<Rightarrow> array_store \<times> nat" where
  "newArray xs s = (s\<lparr>arrays := (arrays s)(nextRef s := xs), nextRef := nextRef s + 1\<rparr>, nextRef s)"

text \<open>
  Lines 323 to 339 on references: the spread \<^verbatim>\<open>[...allProjectsData]\<close> allocates a copy;
  the engine returns a new sequence (a new array, by the spec); \<^verbatim>\<open>filter\<close> allocates its
  result. \<open>allProjectsData\<close> is the reference of the loaded data.
\<close>

definition filterStage ::
  "engine option \<Rightarrow> string \<Rightarrow> nat \<Rightarrow> array_store \<Rightarrow> array_store \<times> nat" where
  "filterStage visibilityEngine currentCategory allProjectsData s =
     (let (s1, filteredProjects) = newArray (arrays s allProjectsData) s
      in case visibilityEngine of
           Some e \<Rightarrow> newArray (getVisibleProjects e) s1
         | None \<Rightarrow>
             if currentCategory \<noteq> ''all''
             then newArray (fallbackFilter currentCategory (arrays s1 filteredProjects)) s1
             else (s1, filteredProjects))"

text \<open>
  Lines 343 to 353 on references: the array that \<open>filteredProjects\<close> refers to is
  reordered where it is; nothing is allocated.
\<close>

definition sortStage ::
  "(string \<Rightarrow> string \<Rightarrow> int) \<Rightarrow> string \<Rightarrow> array_store \<Rightarrow> nat \<Rightarrow> array_store" where
  "sortStage localeCompare currentSort s filteredProjects =
     s\<lparr>arrays := (arrays s)(filteredProjects :=
          sortProjects localeCompare currentSort (arrays s filteredProjects))\<rparr>"

subsection \<open>Page state, rendering and the event handlers\<close>

text \<open>What the projects container shows.\<close>

datatype content = Initial | UnableToLoad | NoProjectsFound | Cards "project list"

text \<open>
  The module's variables (lines 96 to 121) and the part of the document they refer to.
  \<open>containerElement\<close> is the \<^verbatim>\<open>.projects-container\<close> element of the document with what
  it shows (\<open>None\<close>: the document has no such element); \<open>projectsContainer\<close> tells
  whether the variable of that name holds the element or is still \<^verbatim>\<open>null\<close>.
  \<open>searchInput\<close> and \<open>sortSelect\<close> are the two controls with their displayed values
  (\<open>None\<close>: \<^verbatim>\<open>null\<close>). \<open>paginationTotal\<close> is the argument of the last call of
  \<^verbatim>\<open>renderPagination\<close>, \<open>fetchCount\<close> the number of requests for
  \<^verbatim>\<open>projects.json\<close> issued so far, and \<open>filterBtns\<close> the filter buttons, each with
  its \<^verbatim>\<open>data-filter\<close> and its label (a name and a count).
\<close>

record app =
  currentPage :: int
  currentCategory :: string
  currentSort :: string
  allProjectsData :: "project list"
  visibilityEngine :: "engine option"
  projectsContainer :: bool
  containerElement :: "content option"
  searchInput :: "string option"
  sortSelect :: "string option"
  paginationTotal :: "int option"
  fetchCount :: nat
  filterBtns :: "(string \<times> string \<times> nat) list"

definition itemsPerPage :: int where
  "itemsPerPage = 9"

text \<open>
  \<^verbatim>\<open>renderProjects\<close> (lines 311 to 424): look the container up again when the variable
  is \<^verbatim>\<open>null\<close>, give up without it, otherwise filter, sort, cut the page out and show
  it. An empty page shows the empty state and calls \<^verbatim>\<open>renderPagination(0)\<close>.
\<close>

definition renderProjects :: "(string \<Rightarrow> string \<Rightarrow> int) \<Rightarrow> app \<Rightarrow> app" where
  "renderProjects localeCompare st =
     (let st1 = (if projectsContainer st then st
                 else st\<lparr>projectsContainer := (containerElement st \<noteq> None)\<rparr>)
      in if \<not> projectsContainer st1 then st1
         else
           let filteredProjects =
                 (case visibilityEngine st1 of
                    Some e \<Rightarrow> getVisibleProjects e
                  | None \<Rightarrow> fallbackFilter (currentCategory st1) (allProjectsData st1));
               sorted = sortProjects localeCompare (currentSort st1) filteredProjects;
               (paginatedItems, totalPages) = paginate sorted itemsPerPage (currentPage st1)
           in if paginatedItems = []
              then st1\<lparr>containerElement := map_option (\<lambda>_. NoProjectsFound) (containerElement st1),
                       paginationTotal := Some 0\<rparr>
              else st1\<lparr>containerElement := map_option (\<lambda>_. Cards paginatedItems) (containerElement st1),
                       paginationTotal := Some totalPages\<rparr>)"

text \<open>
  The handlers registered by \<^verbatim>\<open>setupEventListeners\<close>. The search handler (lines 197 to
  203) reads the text \<open>v\<close> that the edit has left in the box; the sort handler (lines
  208 to 212) reads the chosen option \<open>v\<close>; the filter handler (lines 218 to 229)
  belongs to the button whose \<^verbatim>\<open>data-filter\<close> is \<open>dataFilter\<close>. The \<open>active\<close> class
  of the buttons is presentation and left out.
\<close>

definition on_search_input :: "(string \<Rightarrow> string \<Rightarrow> int) \<Rightarrow> string \<Rightarrow> app \<Rightarrow> app" where
  "on_search_input localeCompare v st =
     renderProjects localeCompare
       (st\<lparr>searchInput := Some v,
           visibilityEngine := (case visibilityEngine st of
                                  Some e \<Rightarrow> Some (setSearchQuery v e) | None \<Rightarrow> None),
           currentPage := 1\<rparr>)"

definition on_sort_change :: "(string \<Rightarrow> string \<Rightarrow> int) \<Rightarrow> string \<Rightarrow> app \<Rightarrow> app" where
  "on_sort_change localeCompare v st =
     renderProjects localeCompare (st\<lparr>sortSelect := Some v, currentSort := v, currentPage := 1\<rparr>)"

definition on_filter_click :: "(string \<Rightarrow> string \<Rightarrow> int) \<Rightarrow> string \<Rightarrow> app \<Rightarrow> app" where
  "on_filter_click localeCompare dataFilter st =
     renderProjects localeCompare
       (st\<lparr>currentCategory := dataFilter,
           visibilityEngine := (case visibilityEngine st of
                                  Some e \<Rightarrow> Some (setCategory dataFilter e) | None \<Rightarrow> None),
           currentPage := 1\<rparr>)"

text \<open>
  The clear handler (lines 249 to 266). Assigning to \<^verbatim>\<open>sortSelect.value\<close> from script
  raises no \<^verbatim>\<open>change\<close> event, so the sort handler does not run.
\<close>

definition on_clear_click :: "(string \<Rightarrow> string \<Rightarrow> int) \<Rightarrow> app \<Rightarrow> app" where
  "on_clear_click localeCompare st =
     renderProjects localeCompare
       (st\<lparr>searchInput := (case searchInput st of Some _ \<Rightarrow> Some [] | None \<Rightarrow> None),
           sortSelect := (case sortSelect st of Some _ \<Rightarrow> Some ''default'' | None \<Rightarrow> None),
           currentCategory := ''all'',
           currentPage := 1,
           visibilityEngine := (case visibilityEngine st of
                                  Some e \<Rightarrow> Some (reset e) | None \<Rightarrow> None)\<rparr>)"

datatype ui_event = SearchInput string | SortChange string | FilterClick string | ClearClick

fun dispatch :: "(string \<Rightarrow> string \<Rightarrow> int) \<Rightarrow> app \<Rightarrow> ui_event \<Rightarrow> app" where
  "dispatch localeCompare st (SearchInput v) = on_search_input localeCompare v st"
| "dispatch localeCompare st (SortChange v) = on_sort_change localeCompare v st"
| "dispatch localeCompare st (FilterClick dataFilter) = on_filter_click localeCompare dataFilter st"
| "dispatch localeCompare st ClearClick = on_clear_click localeCompare st"

subsection \<open>Category counts (\<^verbatim>\<open>updateCategoryCounts\<close>, lines 124 to 148)\<close>

text \<open>
  \<^verbatim>\<open>
  const cat = project.category ? project.category.toLowerCase() : "unknown";
  counts[cat] = (counts[cat] || 0) + 1;
  \<close>
  \<open>counts\<close> is a plain object used as a dictionary; category names that collide with
  inherited members of objects are outside the model.
\<close>

definition countKey :: "project \<Rightarrow> string" where
  "countKey p =
     (case category p of None \<Rightarrow> ''unknown''
      | Some c \<Rightarrow> if c = [] then ''unknown'' else toLowerCase c)"

definition countProject :: "(string \<rightharpoonup> nat) \<Rightarrow> project \<Rightarrow> (string \<rightharpoonup> nat)" where
  "countProject counts p =
     (let cat = countKey p
      in counts(cat \<mapsto> (case counts cat of None \<Rightarrow> 0 | Some n \<Rightarrow> n) + 1))"

definition categoryCounts :: "project list \<Rightarrow> (string \<rightharpoonup> nat)" where
  "categoryCounts ps = foldl countProject Map.empty ps"

definition upper_char :: "char \<Rightarrow> char" where
  "upper_char c =
     (if 97 \<le> (of_char c :: nat) \<and> (of_char c :: nat) \<le> 122
      then (case c of Char b0 b1 b2 b3 b4 b5 b6 b7 \<Rightarrow> Char b0 b1 b2 b3 b4 False b6 b7)
      else c)"

definition capitalize :: "string \<Rightarrow> string" where
  "capitalize str = (case str of [] \<Rightarrow> [] | c # cs \<Rightarrow> upper_char c # cs)"

definition buttonLabel :: "project list \<Rightarrow> (string \<rightharpoonup> nat) \<Rightarrow> string \<Rightarrow> string \<times> nat" where
  "buttonLabel ps counts dataFilter =
     (let cat = toLowerCase dataFilter
      in if cat = ''all'' then (''All'', length ps)
         else (capitalize cat, (case counts cat of None \<Rightarrow> 0 | Some n \<Rightarrow> n)))"

definition updateCategoryCounts :: "app \<Rightarrow> app" where
  "updateCategoryCounts st =
     (if allProjectsData st = [] then st
      else
        let counts = categoryCounts (allProjectsData st)
        in st\<lparr>filterBtns :=
                 map (\<lambda>(dataFilter, _). (dataFilter, buttonLabel (allProjectsData st) counts dataFilter))
                     (filterBtns st)\<rparr>)"

subsection \<open>Loading the records (\<^verbatim>\<open>fetchProjects\<close>, lines 151 to 179)\<close>

text \<open>
  The request either fails, or answers with a body that is not JSON, or delivers the
  records. The first two end in the \<^verbatim>\<open>catch\<close> block, which writes its message only
  when the variable \<open>projectsContainer\<close> holds the element. On success the data and a
  new engine are stored before the first render; the project counter of the hero
  section is presentation and left out.
\<close>

datatype fetch_outcome = NetworkError | InvalidJson | Loaded "project list"

definition fetchProjects :: "(string \<Rightarrow> string \<Rightarrow> int) \<Rightarrow> fetch_outcome \<Rightarrow> app \<Rightarrow> app" where
  "fetchProjects localeCompare outcome st =
     (let st0 = st\<lparr>fetchCount := fetchCount st + 1\<rparr>
      in case outcome of
           Loaded data \<Rightarrow>
             updateCategoryCounts
               (renderProjects localeCompare
                  (st0\<lparr>allProjectsData := data, visibilityEngine := Some (construct data)\<rparr>))
         | _ \<Rightarrow>
             if projectsContainer st0
             then st0\<lparr>containerElement := map_option (\<lambda>_. UnableToLoad) (containerElement st0)\<rparr>
             else st0)"

subsection \<open>The start-up barrier (lines 631 to 650)\<close>

text \<open>
  Every \<^verbatim>\<open>componentLoaded\<close> event counts one component and initialises the app when the
  count reaches \<open>totalComponents\<close>; the fallback timer initialises it when it fires
  before that. \<open>initCalls\<close> counts the calls of \<^verbatim>\<open>initializeApp\<close>, each of which issues
  one request for the projects and one for the contributors (lines 303 and 304).
\<close>

record startup =
  componentsLoaded :: nat
  initCalls :: nat

definition totalComponents :: nat where
  "totalComponents = 6"

definition initializeApp :: "startup \<Rightarrow> startup" where
  "initializeApp s = s\<lparr>initCalls := initCalls s + 1\<rparr>"

definition on_componentLoaded :: "startup \<Rightarrow> startup" where
  "on_componentLoaded s =
     (let s1 = s\<lparr>componentsLoaded := componentsLoaded s + 1\<rparr>
      in if componentsLoaded s1 = totalComponents then initializeApp s1 else s1)"

definition on_fallback_timeout :: "startup \<Rightarrow> startup" where
  "on_fallback_timeout s =
     (if componentsLoaded s < totalComponents then initializeApp s else s)"

datatype startup_event = ComponentLoaded | FallbackTimeout

fun startupStep :: "startup \<Rightarrow> startup_event \<Rightarrow> startup" where
  "startupStep s ComponentLoaded = on_componentLoaded s"
| "startupStep s FallbackTimeout = on_fallback_timeout s"

definition pageLoad :: "startup_event list \<Rightarrow> startup" where
  "pageLoad events = foldl startupStep \<lparr>componentsLoaded = 0, initCalls = 0\<rparr> events"

subsection \<open>Every step of a page\<close>




subsection \<open>Sample data\<close>

text \<open>
  Three records and a comparator for the worked instances below. \<open>ordinalCompare\<close>
  orders strings by character code, position by position; it stands in for the
  platform's comparison where an instance needs a concrete one.
\<close>

definition weatherApp :: project where
  "weatherApp = \<lparr>title = ''Weather App'', description = ''Forecasts'', category = Some ''Web'',
                  tech = [''HTML'', ''JS''], link = ''./projects/weather/index.html''\<rparr>"

definition chatBot :: project where
  "chatBot = \<lparr>title = ''Chat Bot'', description = ''Talks back'', category = Some ''AI'',
               tech = [''JS''], link = ''./projects/chat/index.html''\<rparr>"

definition webScraper :: project where
  "webScraper = \<lparr>title = ''Web Scraper'', description = ''Collects pages'', category = None,
                  tech = [''JS''], link = ''./projects/scraper/index.html''\<rparr>"

fun ordinalCompare :: "string \<Rightarrow> string \<Rightarrow> int" where
  "ordinalCompare [] [] = 0"
| "ordinalCompare [] (b # bs) = - 1"
| "ordinalCompare (a # as) [] = 1"
| "ordinalCompare (a # as) (b # bs) =
     (if (of_char a :: nat) < of_char b then - 1
      else if (of_char b :: nat) < of_char a then 1
      else ordinalCompare as bs)"

text \<open>
  Two records whose titles are the same text in two encodings: the letter \<open>e\<close> followed
  by the combining acute accent (U+0065 U+0301, the bytes 65 CC 81), and the
  precomposed letter (U+00E9, the bytes C3 A9). The strings differ; Unicode calls them
  canonically equivalent, and ECMA-262 requires \<^verbatim>\<open>localeCompare\<close> to return 0 on
  canonically equivalent strings. \<open>canonicalCompare\<close> is a comparator that does so for
  this one equivalence: it composes the accent and then compares by character code.
\<close>

definition cafeDecomposed :: project where
  "cafeDecomposed = \<lparr>title = ''Cafe'' @ [CHR 0xCC, CHR 0x81], description = ''Menu'',
                      category = Some ''Web'', tech = [''JS''], link = ''./projects/cafe-a/index.html''\<rparr>"

definition cafeComposed :: project where
  "cafeComposed = \<lparr>title = ''Caf'' @ [CHR 0xC3, CHR 0xA9], description = ''Menu'',
                    category = Some ''Web'', tech = [''JS''], link = ''./projects/cafe-b/index.html''\<rparr>"

fun composeAcute :: "string \<Rightarrow> string" where
  "composeAcute (a # b # c # s) =
     (if a = CHR ''e'' \<and> b = CHR 0xCC \<and> c = CHR 0x81
      then CHR 0xC3 # CHR 0xA9 # composeAcute s
      else a # composeAcute (b # c # s))"
| "composeAcute s = s"

definition canonicalCompare :: "string \<Rightarrow> string \<Rightarrow> int" where
  "canonicalCompare a b = ordinalCompare (composeAcute a) (composeAcute b)"

text \<open>
  Page states for the worked instances: \<open>waitingPage\<close> is the page after
  \<^verbatim>\<open>setupEventListeners\<close> has found its elements and before any records arrive;
  \<open>failedPage\<close> is the same page when the set-up ran before the container was in the
  document, so that the variable \<open>projectsContainer\<close> is still \<^verbatim>\<open>null\<close>;
  \<open>loadedPage\<close> has three records, the search text \<open>web\<close> and the sort mode \<open>za\<close>.
\<close>

definition waitingPage :: app where
  "waitingPage =
     \<lparr>currentPage = 1, currentCategory = ''all'', currentSort = ''default'',
      allProjectsData = [], visibilityEngine = None,
      projectsContainer = True, containerElement = Some Initial,
      searchInput = Some [], sortSelect = Some ''default'',
      paginationTotal = None, fetchCount = 0, filterBtns = []\<rparr>"

definition failedPage :: app where
  "failedPage =
     \<lparr>currentPage = 1, currentCategory = ''all'', currentSort = ''default'',
      allProjectsData = [], visibilityEngine = None,
      projectsContainer = False, containerElement = Some Initial,
      searchInput = None, sortSelect = None,
      paginationTotal = None, fetchCount = 0, filterBtns = []\<rparr>"

definition loadedPage :: app where
  "loadedPage =
     \<lparr>currentPage = 1, currentCategory = ''all'', currentSort = ''za'',
      allProjectsData = [weatherApp, chatBot, webScraper],
      visibilityEngine = Some (setSearchQuery ''web'' (construct [weatherApp, chatBot, webScraper])),
      projectsContainer = True, containerElement = Some Initial,
      searchInput = Some ''web'', sortSelect = Some ''za'',
      paginationTotal = None, fetchCount = 1, filterBtns = []\<rparr>"

section \<open>Properties\<close>

subsection \<open>Pagination\<close>

lemma ceiling_quotient_div:
  fixes a b :: int
  assumes "0 < b"
  shows "\<lceil>real_of_int a / real_of_int b\<rceil> = (a + b - 1) div b"
proof -
  have neg: "- a div b = (if a mod b = 0 then - (a div b) else - (a div b) - 1)"
    using assms by (simp add: zdiv_zminus1_eq_if)
  have pos: "(a + b - 1) div b = (if a mod b = 0 then a div b else a div b + 1)"
  proof (cases "a mod b = 0")
    case True
    have "(a + b - 1) div b = a div b"
      by (rule int_div_pos_eq [where r = "b - 1"])
        (use True assms mult_div_mod_eq [of b a] in simp_all)
    with True show ?thesis by simp
  next
    case False
    have m: "0 < a mod b" "a mod b < b"
      using False pos_mod_sign [OF assms, of a] pos_mod_bound [OF assms, of a] by simp_all
    have "(a + b - 1) div b = a div b + 1"
      by (rule int_div_pos_eq [where r = "a mod b - 1"])
        (use m mult_div_mod_eq [of b a] in \<open>simp_all add: algebra_simps\<close>)
    with False show ?thesis by simp
  qed
  have "\<lceil>real_of_int a / real_of_int b\<rceil> = - (- a div b)"
    by (rule ceiling_divide_eq_div)
  with neg pos show ?thesis by simp
qed

lemma js_slice_window:
  assumes "0 \<le> s" and "0 \<le> n"
  shows "js_slice xs s (s + n) = take (nat n) (drop (nat s) xs)"
proof -
  let ?len = "int (length xs)"
  consider (inside) "s + n \<le> ?len" | (cut) "s \<le> ?len" "?len < s + n" | (beyond) "?len < s"
    by linarith
  then show ?thesis
  proof cases
    case inside
    with assms have "js_slice xs s (s + n) = take (nat (max n 0)) (drop (nat s) xs)"
      by (simp add: js_slice_def Let_def min_def)
    with assms show ?thesis by simp
  next
    case cut
    with assms have "js_slice xs s (s + n) = take (nat (?len - s)) (drop (nat s) xs)"
      by (simp add: js_slice_def Let_def min_def max_def) arith
    moreover have "length (drop (nat s) xs) \<le> nat (?len - s)" "length (drop (nat s) xs) \<le> nat n"
      using cut assms by simp_all
    ultimately show ?thesis by simp
  next
    case beyond
    with assms have "js_slice xs s (s + n) = []"
      by (simp add: js_slice_def Let_def min_def max_def)
    moreover have "drop (nat s) xs = []" using beyond by simp
    ultimately show ?thesis by simp
  qed
qed

lemma paginate_totalPages:
  "snd (paginate rs pageSize pageNumber) = \<lceil>real (length rs) / real_of_int pageSize\<rceil>"
  by (simp add: paginate_def Let_def)

lemma paginate_slice:
  assumes "0 < pageSize" and "1 \<le> pageNumber"
  shows "fst (paginate rs pageSize pageNumber) =
           take (nat pageSize) (drop (nat ((pageNumber - 1) * pageSize)) rs)"
proof -
  have "0 \<le> (pageNumber - 1) * pageSize" "0 \<le> pageSize" using assms by simp_all
  then show ?thesis
    by (simp add: paginate_def Let_def js_slice_window)
qed

lemma paginate_beyond:
  assumes "0 < pageSize" and "snd (paginate rs pageSize pageNumber) < pageNumber"
  shows "fst (paginate rs pageSize pageNumber) = []"
proof -
  have "0 \<le> real (length rs) / real_of_int pageSize"
    using assms(1) by simp
  then have "0 \<le> snd (paginate rs pageSize pageNumber)"
    by (simp add: paginate_totalPages)
  with assms(2) have p: "1 \<le> pageNumber" by simp
  have "snd (paginate rs pageSize pageNumber) \<le> pageNumber - 1"
    using assms(2) by simp
  then have "real (length rs) / real_of_int pageSize \<le> real_of_int (pageNumber - 1)"
    by (simp only: paginate_totalPages ceiling_le_iff)
  then have "real (length rs) \<le> real_of_int (pageNumber - 1) * real_of_int pageSize"
    using assms(1) by (simp add: pos_divide_le_eq)
  then have "real_of_int (int (length rs)) \<le> real_of_int ((pageNumber - 1) * pageSize)"
    by simp
  then have "int (length rs) \<le> (pageNumber - 1) * pageSize"
    by (simp only: of_int_le_iff)
  then have "length rs \<le> nat ((pageNumber - 1) * pageSize)" by linarith
  then show ?thesis using assms(1) p by (simp add: paginate_slice)
qed

lemma paginate_total_zero:
  assumes "0 < pageSize"
  shows "snd (paginate rs pageSize pageNumber) = 0 \<longleftrightarrow> rs = []"
proof (cases rs)
  case Nil
  then show ?thesis by (simp add: paginate_totalPages)
next
  case (Cons r rs')
  then have "0 < real (length rs) / real_of_int pageSize"
    using assms by simp
  then have "0 < snd (paginate rs pageSize pageNumber)"
    by (simp only: paginate_totalPages zero_less_ceiling)
  with Cons show ?thesis by simp
qed

lemma paginate_nth:
  assumes "0 < pageSize" and "1 \<le> pageNumber" and "i < length (fst (paginate rs pageSize pageNumber))"
  shows "fst (paginate rs pageSize pageNumber) ! i = rs ! (nat ((pageNumber - 1) * pageSize) + i)"
proof -
  have "i < length (take (nat pageSize) (drop (nat ((pageNumber - 1) * pageSize)) rs))"
    using assms by (simp only: paginate_slice)
  then have "i < nat pageSize" "nat ((pageNumber - 1) * pageSize) + i < length rs"
    by auto
  then show ?thesis using assms(1,2) by (simp add: paginate_slice)
qed

lemma paginate_twenty:
  assumes "length rs = 20"
  shows "length (fst (paginate rs 9 1)) = 9" and "snd (paginate rs 9 1) = 3"
    and "length (fst (paginate rs 9 3)) = 2" and "fst (paginate rs 9 4) = []"
  using assms by (simp_all add: paginate_slice paginate_totalPages)

text \<open>
  Claim C2. For a positive page size and a page number from 1 on, \<open>paginate\<close> returns as
  total the ceiling of the record count over the page size (which is 0 exactly for no
  records), and as slice the records at the positions from \<open>(pageNumber - 1) * pageSize\<close>
  up to \<open>pageNumber * pageSize\<close> that exist: at most \<open>pageSize\<close> of them, in the order
  of the input. A page number beyond the total gives the empty slice. With page size 9
  on 20 records, page 1 has 9 elements, the total is 3, page 3 has 2 elements and page
  4 is empty.
\<close>

theorem paginate_contract:
  assumes "0 < pageSize" and "1 \<le> pageNumber"
  shows "snd (paginate rs pageSize pageNumber) = \<lceil>real (length rs) / real_of_int pageSize\<rceil>
       \<and> snd (paginate rs pageSize pageNumber) = (int (length rs) + pageSize - 1) div pageSize
       \<and> (snd (paginate rs pageSize pageNumber) = 0 \<longleftrightarrow> rs = [])
       \<and> fst (paginate rs pageSize pageNumber)
           = take (nat pageSize) (drop (nat ((pageNumber - 1) * pageSize)) rs)
       \<and> (\<forall>i < length (fst (paginate rs pageSize pageNumber)).
             fst (paginate rs pageSize pageNumber) ! i
               = rs ! (nat ((pageNumber - 1) * pageSize) + i))
       \<and> (snd (paginate rs pageSize pageNumber) < pageNumber
             \<longrightarrow> fst (paginate rs pageSize pageNumber) = [])
       \<and> (length rs = 20 \<longrightarrow>
             length (fst (paginate rs 9 1)) = 9 \<and> snd (paginate rs 9 1) = 3
             \<and> length (fst (paginate rs 9 3)) = 2 \<and> fst (paginate rs 9 4) = [])"
proof -
  have total: "snd (paginate rs pageSize pageNumber) = (int (length rs) + pageSize - 1) div pageSize"
    using ceiling_quotient_div [OF assms(1), of "int (length rs)"]
    by (simp add: paginate_totalPages)
  show ?thesis
    using assms total paginate_totalPages [of rs pageSize pageNumber]
      paginate_total_zero [of pageSize rs pageNumber] paginate_slice [of pageSize pageNumber rs]
      paginate_nth [of pageSize pageNumber _ rs] paginate_beyond [of pageSize rs pageNumber]
      paginate_twenty [of rs]
    by (intro conjI allI impI) simp_all
qed

theorem paginate_contract_witness:
  "(0::int) < 9 \<and> (1::int) \<le> 3
   \<and> snd (paginate [1 ..< 21 :: nat] 9 3) = 3
   \<and> fst (paginate [1 ..< 21 :: nat] 9 3) = [19, 20]
   \<and> fst (paginate [1 ..< 21 :: nat] 9 4) = []
   \<and> length (fst (paginate [1 ..< 21 :: nat] 9 1)) = 9"
proof -
  have "length [1 ..< 21 :: nat] = 20" by simp
  then show ?thesis
    using paginate_contract [of 9 3 "[1 ..< 21 :: nat]"]
      paginate_contract [of 9 4 "[1 ..< 21 :: nat]"]
    by (simp add: upt_rec)
qed

subsection \<open>The visibility engine\<close>

lemma js_includes_sublist: "js_includes s q \<longleftrightarrow> sublist q s"
  by (induction s) (simp_all add: sublist_Cons_right)

lemma visibleScan_filter:
  "visibleScan e ps = filter (\<lambda>p. categoryPredicate e p \<and> searchPredicate e p) ps"
  by (induction ps) simp_all

text \<open>
  Claim C1. \<open>getVisibleProjects\<close> returns exactly the records of the store that pass
  the category predicate (the category is \<open>all\<close>, or the record's category equals it
  after lowercasing both) and the search predicate (the search text is empty, or the
  lowercased title contains the lowercased search text as a contiguous substring), in
  the order of the store; when no record passes, the result is the empty sequence.
\<close>

theorem getVisibleProjects_contract:
  "getVisibleProjects e =
     filter (\<lambda>p. (engineCategory e = ''all''
                   \<or> toLowerCase (recordCategory p) = toLowerCase (engineCategory e))
                \<and> (searchQuery e = []
                   \<or> sublist (toLowerCase (searchQuery e)) (toLowerCase (title p))))
            (records e)
   \<and> subseq (getVisibleProjects e) (records e)
   \<and> ((\<forall>p \<in> set (records e).
          \<not> ((engineCategory e = ''all''
                 \<or> toLowerCase (recordCategory p) = toLowerCase (engineCategory e))
              \<and> (searchQuery e = []
                 \<or> sublist (toLowerCase (searchQuery e)) (toLowerCase (title p)))))
        \<longrightarrow> getVisibleProjects e = [])"
proof -
  have eq: "getVisibleProjects e =
     filter (\<lambda>p. (engineCategory e = ''all''
                   \<or> toLowerCase (recordCategory p) = toLowerCase (engineCategory e))
                \<and> (searchQuery e = []
                   \<or> sublist (toLowerCase (searchQuery e)) (toLowerCase (title p))))
            (records e)"
    by (simp add: getVisibleProjects_def visibleScan_filter categoryPredicate_def
        searchPredicate_def js_includes_sublist)
  show ?thesis
    unfolding eq by (simp add: filter_empty_conv)
qed

theorem getVisibleProjects_contract_witness:
  "getVisibleProjects \<lparr>records = [weatherApp, chatBot, webScraper], searchQuery = ''WEB'', engineCategory = ''all''\<rparr>
     = [webScraper]
   \<and> getVisibleProjects \<lparr>records = [weatherApp, chatBot, webScraper], searchQuery = ''zz'', engineCategory = ''all''\<rparr>
     = []"
  using getVisibleProjects_contract
     [of "\<lparr>records = [weatherApp, chatBot, webScraper], searchQuery = ''WEB'', engineCategory = ''all''\<rparr>"]
    getVisibleProjects_contract
     [of "\<lparr>records = [weatherApp, chatBot, webScraper], searchQuery = ''zz'', engineCategory = ''all''\<rparr>"]
  by (simp add: weatherApp_def chatBot_def webScraper_def toLowerCase_def lower_char_def recordCategory_def
      sublist_code)

lemma records_calls: "records (foldl applyCall e calls) = records e"
proof (induction calls arbitrary: e)
  case Nil
  show ?case by simp
next
  case (Cons c calls)
  show ?case by (cases c) (simp_all add: Cons.IH setSearchQuery_def setCategory_def)
qed

text \<open>
  Claim C3. After any sequence of \<open>setSearchQuery\<close> and \<open>setCategory\<close> calls on an engine
  constructed over \<open>rs\<close>, \<open>reset\<close> gives back the freshly constructed engine: the search
  text is empty, the category is \<open>all\<close>, the records are untouched, and
  \<open>getVisibleProjects\<close> returns what it returns on a fresh engine over \<open>rs\<close>.
\<close>

theorem reset_restores_fresh_engine:
  "reset (foldl applyCall (construct rs) calls) = construct rs
   \<and> records (reset (foldl applyCall (construct rs) calls)) = rs
   \<and> searchQuery (reset e) = [] \<and> engineCategory (reset e) = ''all''
   \<and> records (reset e) = records e
   \<and> getVisibleProjects (reset (foldl applyCall (construct rs) calls))
       = getVisibleProjects (construct rs)"
proof -
  have "records (foldl applyCall (construct rs) calls) = rs"
    by (simp add: records_calls construct_def)
  then have "reset (foldl applyCall (construct rs) calls) = construct rs"
    by (simp add: reset_def construct_def)
  then show ?thesis by (simp add: reset_def construct_def)
qed

subsection \<open>Sorting\<close>

lemma set_insert_by: "set (insert_by c x ys) = insert x (set ys)"
  by (induction ys) auto

lemma set_js_sort: "set (js_sort c xs) = set xs"
  by (induction xs) (simp_all add: js_sort_def set_insert_by)

lemma length_insert_by: "length (insert_by c x ys) = Suc (length ys)"
  by (induction ys) simp_all

lemma length_js_sort: "length (js_sort c xs) = length xs"
  by (induction xs) (simp_all add: js_sort_def length_insert_by)

lemma distinct_insert_by: "distinct (insert_by c x ys) \<longleftrightarrow> x \<notin> set ys \<and> distinct ys"
  by (induction ys) (auto simp: set_insert_by)

lemma distinct_js_sort: "distinct (js_sort c xs) \<longleftrightarrow> distinct xs"
proof (induction xs)
  case Nil
  show ?case by (simp add: js_sort_def)
next
  case (Cons x xs)
  have "js_sort c (x # xs) = insert_by c x (js_sort c xs)" by (simp add: js_sort_def)
  then show ?case using Cons by (simp add: distinct_insert_by set_js_sort)
qed

lemma sorted_insert_by:
  assumes total: "\<forall>a\<in>A. \<forall>b\<in>A. c a b \<le> 0 \<or> c b a \<le> 0"
    and trans: "\<forall>a\<in>A. \<forall>b\<in>A. \<forall>d\<in>A. c a b \<le> 0 \<and> c b d \<le> 0 \<longrightarrow> c a d \<le> 0"
    and "x \<in> A" and "set ys \<subseteq> A" and "sorted_wrt (\<lambda>a b. c a b \<le> 0) ys"
  shows "sorted_wrt (\<lambda>a b. c a b \<le> 0) (insert_by c x ys)"
  using assms(3-)
proof (induction ys)
  case Nil
  show ?case by simp
next
  case (Cons y ys)
  show ?case
  proof (cases "c x y \<le> 0")
    case True
    have "\<forall>z\<in>set ys. c x z \<le> 0"
    proof
      fix z assume z: "z \<in> set ys"
      then have "c y z \<le> 0" using Cons.prems(3) by simp
      moreover have "z \<in> A" "y \<in> A" using z Cons.prems(2) by auto
      ultimately show "c x z \<le> 0" using True trans Cons.prems(1) by blast
    qed
    with True Cons.prems(3) show ?thesis by simp
  next
    case False
    have "y \<in> A" using Cons.prems(2) by simp
    with False total Cons.prems(1) have yx: "c y x \<le> 0" by blast
    have "sorted_wrt (\<lambda>a b. c a b \<le> 0) (insert_by c x ys)"
      using Cons by simp
    with False yx Cons.prems(3) show ?thesis by (auto simp: set_insert_by)
  qed
qed

lemma sorted_js_sort:
  assumes total: "\<forall>a\<in>set xs. \<forall>b\<in>set xs. c a b \<le> 0 \<or> c b a \<le> 0"
    and trans: "\<forall>a\<in>set xs. \<forall>b\<in>set xs. \<forall>d\<in>set xs. c a b \<le> 0 \<and> c b d \<le> 0 \<longrightarrow> c a d \<le> 0"
  shows "sorted_wrt (\<lambda>a b. c a b \<le> 0) (js_sort c xs)"
proof -
  have "set zs \<subseteq> set xs \<Longrightarrow> sorted_wrt (\<lambda>a b. c a b \<le> 0) (js_sort c zs)" for zs
  proof (induction zs)
    case Nil
    show ?case by (simp add: js_sort_def)
  next
    case (Cons z zs)
    have step: "js_sort c (z # zs) = insert_by c z (js_sort c zs)" by (simp add: js_sort_def)
    have "sorted_wrt (\<lambda>a b. c a b \<le> 0) (insert_by c z (js_sort c zs))"
    proof (rule sorted_insert_by [OF total trans])
      show "z \<in> set xs" using Cons.prems by simp
      show "set (js_sort c zs) \<subseteq> set xs" using Cons.prems by (simp add: set_js_sort)
      show "sorted_wrt (\<lambda>a b. c a b \<le> 0) (js_sort c zs)" using Cons by simp
    qed
    with step show ?case by simp
  qed
  then show ?thesis by simp
qed

lemma sorted_wrt_unique:
  assumes "sorted_wrt R xs" and "sorted_wrt R ys" and "distinct xs" and "distinct ys"
    and "set xs = set ys"
    and antisym: "\<forall>a\<in>set xs. \<forall>b\<in>set xs. R a b \<and> R b a \<longrightarrow> a = b"
  shows "xs = ys"
  using assms
proof (induction xs arbitrary: ys)
  case Nil
  then show ?case by simp
next
  case (Cons x xs)
  then obtain y ys' where ys: "ys = y # ys'" by (cases ys) auto
  have xy: "x = y"
  proof (rule ccontr)
    assume ne: "x \<noteq> y"
    have "x \<in> set ys'" using Cons.prems(5) ne ys by auto
    then have 1: "R y x" using Cons.prems(2) ys by simp
    have "y \<in> set xs" using Cons.prems(5) ne ys by auto
    then have 2: "R x y" using Cons.prems(1) by simp
    have "y \<in> set (x # xs)" using Cons.prems(5) ys by simp
    with 1 2 Cons.prems(6) have "x = y" by auto
    with ne show False by simp
  qed
  have "set xs = set ys'" using Cons.prems(3,4,5) ys xy by auto
  moreover have "\<forall>a\<in>set xs. \<forall>b\<in>set xs. R a b \<and> R b a \<longrightarrow> a = b"
    using Cons.prems(6) by simp
  ultimately have "xs = ys'"
    using Cons.IH [of ys'] Cons.prems(1-4) ys by simp
  with xy ys show ?case by simp
qed


lemma sortProjects_newest: "sortProjects localeCompare ''newest'' xs = rev xs"
  by (simp add: sortProjects_def)

lemma sortProjects_other:
  "m \<noteq> ''az'' \<Longrightarrow> m \<noteq> ''za'' \<Longrightarrow> m \<noteq> ''newest'' \<Longrightarrow> sortProjects localeCompare m xs = xs"
  by (simp add: sortProjects_def)

lemma filter_insert_by_other:
  "\<not> P z \<Longrightarrow> filter P (insert_by c z ys) = filter P ys"
  by (induction ys) simp_all

lemma filter_insert_by_tied:
  assumes anti: "\<forall>a\<in>A. \<forall>b\<in>A. (c a b < 0) = (0 < c b a)"
    and trans: "\<forall>a\<in>A. \<forall>b\<in>A. \<forall>d\<in>A. c a b \<le> 0 \<and> c b d \<le> 0 \<longrightarrow> c a d \<le> 0"
    and "x \<in> A" and "z \<in> A" and "set ys \<subseteq> A" and tie: "c x z = 0"
  shows "filter (\<lambda>y. c x y = 0) (insert_by c z ys) = z # filter (\<lambda>y. c x y = 0) ys"
  using assms(5)
proof (induction ys)
  case Nil
  show ?case using tie by simp
next
  case (Cons y ys)
  show ?case
  proof (cases "c z y \<le> 0")
    case True
    then show ?thesis using tie by simp
  next
    case False
    have y: "y \<in> A" using Cons.prems by simp
    have zx: "c z x \<le> 0"
    proof -
      have "(c x z < 0) = (0 < c z x)" using anti assms(3,4) by blast
      with tie show ?thesis by simp
    qed
    have "c x y \<noteq> 0"
    proof
      assume "c x y = 0"
      with zx have "c z x \<le> 0 \<and> c x y \<le> 0" by simp
      with trans assms(3,4) y have "c z y \<le> 0" by blast
      with False show False by simp
    qed
    moreover have "filter (\<lambda>y. c x y = 0) (insert_by c z ys) = z # filter (\<lambda>y. c x y = 0) ys"
      using Cons by simp
    ultimately show ?thesis using False by simp
  qed
qed

lemma js_sort_stable:
  assumes anti: "\<forall>a\<in>set xs. \<forall>b\<in>set xs. (c a b < 0) = (0 < c b a)"
    and trans: "\<forall>a\<in>set xs. \<forall>b\<in>set xs. \<forall>d\<in>set xs. c a b \<le> 0 \<and> c b d \<le> 0 \<longrightarrow> c a d \<le> 0"
    and x: "x \<in> set xs"
  shows "filter (\<lambda>y. c x y = 0) (js_sort c xs) = filter (\<lambda>y. c x y = 0) xs"
proof -
  have "set zs \<subseteq> set xs \<Longrightarrow>
          filter (\<lambda>y. c x y = 0) (js_sort c zs) = filter (\<lambda>y. c x y = 0) zs" for zs
  proof (induction zs)
    case Nil
    show ?case by (simp add: js_sort_def)
  next
    case (Cons z zs)
    have step: "js_sort c (z # zs) = insert_by c z (js_sort c zs)" by (simp add: js_sort_def)
    have ih: "filter (\<lambda>y. c x y = 0) (js_sort c zs) = filter (\<lambda>y. c x y = 0) zs"
      using Cons by simp
    show ?case
    proof (cases "c x z = 0")
      case True
      have "filter (\<lambda>y. c x y = 0) (insert_by c z (js_sort c zs))
              = z # filter (\<lambda>y. c x y = 0) (js_sort c zs)"
      proof (rule filter_insert_by_tied [OF anti trans x _ _ True])
        show "z \<in> set xs" using Cons.prems by simp
        show "set (js_sort c zs) \<subseteq> set xs" using Cons.prems by (simp add: set_js_sort)
      qed
      with step ih True show ?thesis by simp
    next
      case False
      then have "filter (\<lambda>y. c x y = 0) (insert_by c z (js_sort c zs))
              = filter (\<lambda>y. c x y = 0) (js_sort c zs)"
        by (rule filter_insert_by_other)
      with step ih False show ?thesis by simp
    qed
  qed
  then show ?thesis by simp
qed

lemma sortProjects_stable:
  assumes anti: "\<forall>a\<in>set xs. \<forall>b\<in>set xs.
                 (localeCompare (title a) (title b) < 0) = (0 < localeCompare (title b) (title a))"
    and trans: "\<forall>a\<in>set xs. \<forall>b\<in>set xs. \<forall>d\<in>set xs.
                  localeCompare (title a) (title b) \<le> 0 \<and> localeCompare (title b) (title d) \<le> 0
                  \<longrightarrow> localeCompare (title a) (title d) \<le> 0"
    and x: "x \<in> set xs"
  shows "filter (\<lambda>y. localeCompare (title x) (title y) = 0) (sortProjects localeCompare ''az'' xs)
           = filter (\<lambda>y. localeCompare (title x) (title y) = 0) xs"
    and "filter (\<lambda>y. localeCompare (title y) (title x) = 0) (sortProjects localeCompare ''za'' xs)
           = filter (\<lambda>y. localeCompare (title y) (title x) = 0) xs"
proof -
  let ?az = "\<lambda>a b. localeCompare (title a) (title b)"
  let ?za = "\<lambda>a b. localeCompare (title b) (title a)"
  have anti_za: "\<forall>a\<in>set xs. \<forall>b\<in>set xs. (?za a b < 0) = (0 < ?za b a)"
    using anti by blast
  have trans_za: "\<forall>a\<in>set xs. \<forall>b\<in>set xs. \<forall>d\<in>set xs.
                    ?za a b \<le> 0 \<and> ?za b d \<le> 0 \<longrightarrow> ?za a d \<le> 0"
    using trans by blast
  show "filter (\<lambda>y. localeCompare (title x) (title y) = 0) (sortProjects localeCompare ''az'' xs)
           = filter (\<lambda>y. localeCompare (title x) (title y) = 0) xs"
    using js_sort_stable [of xs ?az x, OF anti trans x] by (simp add: sortProjects_def)
  show "filter (\<lambda>y. localeCompare (title y) (title x) = 0) (sortProjects localeCompare ''za'' xs)
           = filter (\<lambda>y. localeCompare (title y) (title x) = 0) xs"
    using js_sort_stable [of xs ?za x, OF anti_za trans_za x] by (simp add: sortProjects_def)
qed

text \<open>
  Claim C5, as the code has it. Take records with pairwise distinct titles, and a
  \<open>localeCompare\<close> that is a consistent comparator on these titles (opposite signs for
  swapped arguments, transitive) and has no ties among them: it returns 0 on two of the
  titles only when they are the same title. Then mode \<open>za\<close> yields exactly the reverse
  of mode \<open>az\<close>, mode \<open>az\<close> yields the records in ascending order of title, both modes
  keep the records that compare as equal to a given record in their input order
  (stability), and mode \<open>newest\<close> yields the reverse of the input.
\<close>

theorem sort_az_za_reversed:
  assumes titles: "distinct (map title xs)"
    and noties: "\<forall>a\<in>set xs. \<forall>b\<in>set xs.
                   localeCompare (title a) (title b) = 0 \<longrightarrow> title a = title b"
    and anti: "\<forall>a\<in>set xs. \<forall>b\<in>set xs.
                 (localeCompare (title a) (title b) < 0) = (0 < localeCompare (title b) (title a))"
    and trans: "\<forall>a\<in>set xs. \<forall>b\<in>set xs. \<forall>d\<in>set xs.
                  localeCompare (title a) (title b) \<le> 0 \<and> localeCompare (title b) (title d) \<le> 0
                  \<longrightarrow> localeCompare (title a) (title d) \<le> 0"
  shows "sortProjects localeCompare ''za'' xs = rev (sortProjects localeCompare ''az'' xs)
       \<and> sorted_wrt (\<lambda>a b. localeCompare (title a) (title b) \<le> 0)
            (sortProjects localeCompare ''az'' xs)
       \<and> set (sortProjects localeCompare ''az'' xs) = set xs
       \<and> length (sortProjects localeCompare ''az'' xs) = length xs
       \<and> (\<forall>x\<in>set xs.
             filter (\<lambda>y. localeCompare (title x) (title y) = 0)
                 (sortProjects localeCompare ''az'' xs)
               = filter (\<lambda>y. localeCompare (title x) (title y) = 0) xs
             \<and> filter (\<lambda>y. localeCompare (title y) (title x) = 0)
                 (sortProjects localeCompare ''za'' xs)
               = filter (\<lambda>y. localeCompare (title y) (title x) = 0) xs)
       \<and> sortProjects localeCompare ''newest'' xs = rev xs"
proof -
  let ?az = "\<lambda>a b. localeCompare (title a) (title b)"
  let ?za = "\<lambda>a b. localeCompare (title b) (title a)"
  have inj: "inj_on title (set xs)" and dist: "distinct xs"
    using titles by (simp_all add: distinct_map)
  have total_az: "\<forall>a\<in>set xs. \<forall>b\<in>set xs. ?az a b \<le> 0 \<or> ?az b a \<le> 0"
  proof (intro ballI)
    fix a b assume "a \<in> set xs" "b \<in> set xs"
    with anti have "(?az b a < 0) = (0 < ?az a b)" by blast
    then show "?az a b \<le> 0 \<or> ?az b a \<le> 0" by linarith
  qed
  have total_za: "\<forall>a\<in>set xs. \<forall>b\<in>set xs. ?za a b \<le> 0 \<or> ?za b a \<le> 0"
    using total_az by blast
  have trans_za: "\<forall>a\<in>set xs. \<forall>b\<in>set xs. \<forall>d\<in>set xs.
                    ?za a b \<le> 0 \<and> ?za b d \<le> 0 \<longrightarrow> ?za a d \<le> 0"
    using trans by blast
  have sorted_az: "sorted_wrt (\<lambda>a b. ?az a b \<le> 0) (js_sort ?az xs)"
    by (rule sorted_js_sort [OF total_az trans])
  have sorted_za: "sorted_wrt (\<lambda>a b. ?za a b \<le> 0) (js_sort ?za xs)"
    by (rule sorted_js_sort [OF total_za trans_za])
  have sorted_rev: "sorted_wrt (\<lambda>a b. ?za a b \<le> 0) (rev (js_sort ?az xs))"
    using sorted_az by (simp add: sorted_wrt_rev)
  have antisym: "\<forall>a\<in>set (js_sort ?za xs). \<forall>b\<in>set (js_sort ?za xs).
                   ?za a b \<le> 0 \<and> ?za b a \<le> 0 \<longrightarrow> a = b"
  proof (intro ballI impI)
    fix a b assume ab: "a \<in> set (js_sort ?za xs)" "b \<in> set (js_sort ?za xs)"
      and le: "?za a b \<le> 0 \<and> ?za b a \<le> 0"
    from ab have mem: "a \<in> set xs" "b \<in> set xs" by (simp_all add: set_js_sort)
    with anti have "(?az a b < 0) = (0 < ?az b a)" by blast
    with le have "?az a b = 0" by linarith
    with noties mem have "title a = title b" by blast
    with inj mem show "a = b" by (simp add: inj_on_def)
  qed
  have "js_sort ?za xs = rev (js_sort ?az xs)"
    by (rule sorted_wrt_unique [OF sorted_za sorted_rev _ _ _ antisym])
      (simp_all add: distinct_js_sort set_js_sort dist)
  then have main: "sortProjects localeCompare ''za'' xs = rev (sortProjects localeCompare ''az'' xs)
       \<and> sorted_wrt (\<lambda>a b. localeCompare (title a) (title b) \<le> 0)
            (sortProjects localeCompare ''az'' xs)
       \<and> set (sortProjects localeCompare ''az'' xs) = set xs
       \<and> length (sortProjects localeCompare ''az'' xs) = length xs
       \<and> sortProjects localeCompare ''newest'' xs = rev xs"
    using sorted_az by (simp add: sortProjects_def set_js_sort length_js_sort)
  have stable: "\<forall>x\<in>set xs.
             filter (\<lambda>y. localeCompare (title x) (title y) = 0)
                 (sortProjects localeCompare ''az'' xs)
               = filter (\<lambda>y. localeCompare (title x) (title y) = 0) xs
             \<and> filter (\<lambda>y. localeCompare (title y) (title x) = 0)
                 (sortProjects localeCompare ''za'' xs)
               = filter (\<lambda>y. localeCompare (title y) (title x) = 0) xs"
    using sortProjects_stable [OF anti trans] by blast
  from main stable show ?thesis by blast
qed

theorem sort_az_za_reversed_witness:
  "distinct (map title [weatherApp, chatBot, webScraper])
   \<and> sortProjects ordinalCompare ''az'' [weatherApp, chatBot, webScraper]
       = [chatBot, weatherApp, webScraper]
   \<and> sortProjects ordinalCompare ''za'' [weatherApp, chatBot, webScraper]
       = [webScraper, weatherApp, chatBot]
   \<and> sortProjects ordinalCompare ''newest'' [weatherApp, chatBot, webScraper]
       = [webScraper, chatBot, weatherApp]"
proof -
  have az: "sortProjects ordinalCompare ''az'' [weatherApp, chatBot, webScraper]
              = [chatBot, weatherApp, webScraper]"
    by (simp add: sortProjects_def js_sort_def weatherApp_def chatBot_def webScraper_def)
  have "sortProjects ordinalCompare ''za'' [weatherApp, chatBot, webScraper]
          = rev (sortProjects ordinalCompare ''az'' [weatherApp, chatBot, webScraper])
        \<and> sortProjects ordinalCompare ''newest'' [weatherApp, chatBot, webScraper]
          = rev [weatherApp, chatBot, webScraper]"
    using sort_az_za_reversed [of "[weatherApp, chatBot, webScraper]" ordinalCompare]
    by (simp add: weatherApp_def chatBot_def webScraper_def)
  with az show ?thesis
    by (simp add: weatherApp_def chatBot_def webScraper_def)
qed

text \<open>
  Claim C5, as stated, fails: pairwise distinct titles can still tie. The two sample
  titles differ as strings and are canonically equivalent, so a comparator that honours
  canonical equivalence returns 0 on them; the stable sort then keeps the input order
  in mode \<open>az\<close> and in mode \<open>za\<close> alike, and the two results are not reverses of each
  other.
\<close>

theorem sort_ties_counterexample:
  "distinct (map title [cafeDecomposed, cafeComposed])
   \<and> canonicalCompare (title cafeDecomposed) (title cafeComposed) = 0
   \<and> canonicalCompare (title cafeComposed) (title cafeDecomposed) = 0
   \<and> sortProjects canonicalCompare ''az'' [cafeDecomposed, cafeComposed]
       = [cafeDecomposed, cafeComposed]
   \<and> sortProjects canonicalCompare ''za'' [cafeDecomposed, cafeComposed]
       = [cafeDecomposed, cafeComposed]
   \<and> sortProjects canonicalCompare ''za'' [cafeDecomposed, cafeComposed]
       \<noteq> rev (sortProjects canonicalCompare ''az'' [cafeDecomposed, cafeComposed])"
  by (simp add: sortProjects_def js_sort_def canonicalCompare_def cafeDecomposed_def
      cafeComposed_def)

subsection \<open>Sorting in place\<close>

lemma sortStage_other:
  assumes "m \<noteq> ''az''" and "m \<noteq> ''za''" and "m \<noteq> ''newest''"
  shows "sortStage localeCompare m s r = s"
  using assms by (simp add: sortStage_def sortProjects_other)

lemma filterStage_result:
  assumes "filterStage eng cat d s = (s1, fp)" and "d < nextRef s"
  shows "fp \<noteq> d"
    and "arrays s1 d = arrays s d"
    and "arrays s1 fp = (case eng of Some e \<Rightarrow> getVisibleProjects e
                         | None \<Rightarrow> fallbackFilter cat (arrays s d))"
proof -
  have all: "fallbackFilter ''all'' xs = xs" for xs
    by (simp add: fallbackFilter_def)
  show "fp \<noteq> d" and "arrays s1 d = arrays s d"
    using assms
    by (auto simp: filterStage_def newArray_def Let_def split: option.splits if_splits)
  show "arrays s1 fp = (case eng of Some e \<Rightarrow> getVisibleProjects e
                         | None \<Rightarrow> fallbackFilter cat (arrays s d))"
  proof (cases eng)
    case (Some e)
    with assms show ?thesis by (auto simp: filterStage_def newArray_def Let_def)
  next
    case None
    show ?thesis
    proof (cases "cat = ''all''")
      case True
      with None assms show ?thesis
        by (auto simp: filterStage_def newArray_def Let_def all)
    next
      case False
      with None assms show ?thesis
        by (auto simp: filterStage_def newArray_def Let_def)
    qed
  qed
qed

text \<open>
  Claim C4, as the code has it. The sort stage reorders the array that
  \<open>filteredProjects\<close> refers to where it is: afterwards that same array holds the sorted
  order, every other array is as before, and no array has been allocated. Under
  \<open>default\<close>, and under every mode other than \<open>az\<close>, \<open>za\<close> and \<open>newest\<close>, nothing changes
  at all, whatever the comparator. In \<open>renderProjects\<close> the array handed to the sort
  stage is never the loaded data itself, so \<open>allProjectsData\<close> keeps its order.
\<close>

theorem sortStage_in_place:
  "arrays (sortStage localeCompare m s r) r = sortProjects localeCompare m (arrays s r)
   \<and> (\<forall>a. a \<noteq> r \<longrightarrow> arrays (sortStage localeCompare m s r) a = arrays s a)
   \<and> nextRef (sortStage localeCompare m s r) = nextRef s
   \<and> (m \<noteq> ''az'' \<and> m \<noteq> ''za'' \<and> m \<noteq> ''newest'' \<longrightarrow> sortStage localeCompare m s r = s)
   \<and> sortStage localeCompare ''default'' s r = s
   \<and> (d < nextRef s \<longrightarrow>
        (case filterStage eng cat d s of
           (s1, fp) \<Rightarrow>
             fp \<noteq> d
             \<and> arrays (sortStage localeCompare m s1 fp) d = arrays s d
             \<and> arrays (sortStage localeCompare m s1 fp) fp
                 = sortProjects localeCompare m
                     (case eng of Some e \<Rightarrow> getVisibleProjects e
                      | None \<Rightarrow> fallbackFilter cat (arrays s d))))"
proof -
  have pipeline: "fp \<noteq> d
             \<and> arrays (sortStage localeCompare m s1 fp) d = arrays s d
             \<and> arrays (sortStage localeCompare m s1 fp) fp
                 = sortProjects localeCompare m
                     (case eng of Some e \<Rightarrow> getVisibleProjects e
                      | None \<Rightarrow> fallbackFilter cat (arrays s d))"
    if "filterStage eng cat d s = (s1, fp)" and "d < nextRef s" for s1 fp
    using filterStage_result [OF that] by (simp add: sortStage_def)
  have "sortStage localeCompare ''default'' s r = s"
    by (rule sortStage_other) simp_all
  moreover have "m \<noteq> ''az'' \<and> m \<noteq> ''za'' \<and> m \<noteq> ''newest'' \<longrightarrow> sortStage localeCompare m s r = s"
    by (simp add: sortStage_other)
  ultimately show ?thesis
    using pipeline by (auto simp: sortStage_def split: prod.splits)
qed

theorem sortStage_in_place_witness:
  "arrays (sortStage ordinalCompare ''az''
      \<lparr>arrays = (\<lambda>_. [])(0 := [weatherApp, chatBot], 1 := [weatherApp, chatBot]), nextRef = 2\<rparr> 1) 0
     = [weatherApp, chatBot]
   \<and> arrays (sortStage ordinalCompare ''az''
      \<lparr>arrays = (\<lambda>_. [])(0 := [weatherApp, chatBot], 1 := [weatherApp, chatBot]), nextRef = 2\<rparr> 1) 1
     = [chatBot, weatherApp]
   \<and> (0::nat) < nextRef \<lparr>arrays = (\<lambda>_. [])(0 := [weatherApp, chatBot]), nextRef = 1\<rparr>
   \<and> snd (filterStage None ''all'' 0 \<lparr>arrays = (\<lambda>_. [])(0 := [weatherApp, chatBot]), nextRef = 1\<rparr>) = 1"
  using sortStage_in_place [where localeCompare = ordinalCompare and m = "''az''"
      and s = "\<lparr>arrays = (\<lambda>_. [])(0 := [weatherApp, chatBot], 1 := [weatherApp, chatBot]), nextRef = 2\<rparr>"
      and r = 1 and d = 0 and eng = None and cat = "''all''"]
  by (simp add: sortStage_def sortProjects_def js_sort_def weatherApp_def chatBot_def
      filterStage_def newArray_def)

text \<open>
  Claim C4, as stated, fails: under \<open>newest\<close> the array handed to the sort stage is
  changed, and no new array is made.
\<close>

theorem sortStage_mutates_counterexample:
  "arrays (sortStage ordinalCompare ''newest''
      \<lparr>arrays = (\<lambda>_. [])(0 := [weatherApp, chatBot]), nextRef = 1\<rparr> 0) 0
     \<noteq> arrays \<lparr>arrays = (\<lambda>_. [])(0 := [weatherApp, chatBot]), nextRef = 1\<rparr> 0
   \<and> nextRef (sortStage ordinalCompare ''newest''
      \<lparr>arrays = (\<lambda>_. [])(0 := [weatherApp, chatBot]), nextRef = 1\<rparr> 0) = 1"
  by (simp add: sortStage_def sortProjects_def weatherApp_def chatBot_def)

subsection \<open>Handlers and rendering\<close>

lemma renderProjects_frame:
  "currentPage (renderProjects localeCompare st) = currentPage st"
  "currentCategory (renderProjects localeCompare st) = currentCategory st"
  "currentSort (renderProjects localeCompare st) = currentSort st"
  "allProjectsData (renderProjects localeCompare st) = allProjectsData st"
  "visibilityEngine (renderProjects localeCompare st) = visibilityEngine st"
  "searchInput (renderProjects localeCompare st) = searchInput st"
  "sortSelect (renderProjects localeCompare st) = sortSelect st"
  "fetchCount (renderProjects localeCompare st) = fetchCount st"
  "filterBtns (renderProjects localeCompare st) = filterBtns st"
  by (simp_all add: renderProjects_def Let_def split: prod.splits)

lemma handlers_frame:
  "fetchCount (on_search_input localeCompare v st) = fetchCount st"
  "fetchCount (on_sort_change localeCompare v st) = fetchCount st"
  "fetchCount (on_filter_click localeCompare v st) = fetchCount st"
  "fetchCount (on_clear_click localeCompare st) = fetchCount st"
  "allProjectsData (on_search_input localeCompare v st) = allProjectsData st"
  "allProjectsData (on_sort_change localeCompare v st) = allProjectsData st"
  "allProjectsData (on_filter_click localeCompare v st) = allProjectsData st"
  "allProjectsData (on_clear_click localeCompare st) = allProjectsData st"
  by (simp_all add: on_search_input_def on_sort_change_def on_filter_click_def
      on_clear_click_def renderProjects_frame)

lemma handlers_engine:
  "visibilityEngine (on_search_input localeCompare v st) = map_option (setSearchQuery v) (visibilityEngine st)"
  "visibilityEngine (on_sort_change localeCompare v st) = visibilityEngine st"
  "visibilityEngine (on_filter_click localeCompare v st) = map_option (setCategory v) (visibilityEngine st)"
  "visibilityEngine (on_clear_click localeCompare st) = map_option reset (visibilityEngine st)"
  by (simp_all add: on_search_input_def on_sort_change_def on_filter_click_def
      on_clear_click_def renderProjects_frame split: option.splits)

lemma dispatch_frame:
  "fetchCount (dispatch localeCompare st ev) = fetchCount st"
  "allProjectsData (dispatch localeCompare st ev) = allProjectsData st"
  "visibilityEngine st = None \<Longrightarrow> visibilityEngine (dispatch localeCompare st ev) = None"
  by (cases ev; simp add: handlers_frame handlers_engine)+

lemma events_frame:
  "fetchCount (foldl (dispatch localeCompare) st events) = fetchCount st"
  "allProjectsData (foldl (dispatch localeCompare) st events) = allProjectsData st"
  "visibilityEngine st = None \<Longrightarrow> visibilityEngine (foldl (dispatch localeCompare) st events) = None"
  by (induction events arbitrary: st) (simp_all add: dispatch_frame)

text \<open>
  Claim C6. Each of the three handlers that can change which records pass the filter
  (the search edit, the filter click, the clear action) leaves \<open>currentPage\<close> at 1, and
  the render it ends with runs on a state whose \<open>currentPage\<close> is already 1.
\<close>

theorem page_reset_before_render:
  "currentPage (on_search_input localeCompare v st) = 1
   \<and> (\<exists>st'. currentPage st' = 1 \<and> on_search_input localeCompare v st = renderProjects localeCompare st')
   \<and> currentPage (on_filter_click localeCompare dataFilter st) = 1
   \<and> (\<exists>st'. currentPage st' = 1 \<and> on_filter_click localeCompare dataFilter st = renderProjects localeCompare st')
   \<and> currentPage (on_clear_click localeCompare st) = 1
   \<and> (\<exists>st'. currentPage st' = 1 \<and> on_clear_click localeCompare st = renderProjects localeCompare st')"
proof (intro conjI)
  show "currentPage (on_search_input localeCompare v st) = 1"
    by (simp add: on_search_input_def renderProjects_frame)
  show "currentPage (on_filter_click localeCompare dataFilter st) = 1"
    by (simp add: on_filter_click_def renderProjects_frame)
  show "currentPage (on_clear_click localeCompare st) = 1"
    by (simp add: on_clear_click_def renderProjects_frame)
  show "\<exists>st'. currentPage st' = 1 \<and> on_search_input localeCompare v st = renderProjects localeCompare st'"
    unfolding on_search_input_def by (rule exI, rule conjI [OF _ refl]) simp
  show "\<exists>st'. currentPage st' = 1 \<and> on_filter_click localeCompare dataFilter st = renderProjects localeCompare st'"
    unfolding on_filter_click_def by (rule exI, rule conjI [OF _ refl]) simp
  show "\<exists>st'. currentPage st' = 1 \<and> on_clear_click localeCompare st = renderProjects localeCompare st'"
    unfolding on_clear_click_def by (rule exI, rule conjI [OF _ refl]) simp
qed

text \<open>
  What \<^verbatim>\<open>fetchProjects\<close> does when the request fails or its body is not JSON, and no
  engine existed before: no engine exists afterwards, exactly one request has been
  issued (the \<^verbatim>\<open>catch\<close> block issues none), the records stay as they were, and the
  message is written into the container when the variable \<open>projectsContainer\<close> holds
  it. After any further search edits, sort changes, filter clicks and clear actions
  there is still no engine and no further request: each handler skips its engine call
  behind the presence check.
\<close>

theorem fetch_failure_handling:
  assumes "outcome = NetworkError \<or> outcome = InvalidJson"
    and "visibilityEngine st = None"
  shows "visibilityEngine (fetchProjects localeCompare outcome st) = None
       \<and> fetchCount (fetchProjects localeCompare outcome st) = fetchCount st + 1
       \<and> allProjectsData (fetchProjects localeCompare outcome st) = allProjectsData st
       \<and> (projectsContainer st \<longrightarrow>
            containerElement (fetchProjects localeCompare outcome st)
              = map_option (\<lambda>_. UnableToLoad) (containerElement st))
       \<and> visibilityEngine (foldl (dispatch localeCompare) (fetchProjects localeCompare outcome st) events) = None
       \<and> fetchCount (foldl (dispatch localeCompare) (fetchProjects localeCompare outcome st) events) = fetchCount st + 1
       \<and> allProjectsData (foldl (dispatch localeCompare) (fetchProjects localeCompare outcome st) events)
           = allProjectsData st"
proof -
  have now: "visibilityEngine (fetchProjects localeCompare outcome st) = None"
    "fetchCount (fetchProjects localeCompare outcome st) = fetchCount st + 1"
    "allProjectsData (fetchProjects localeCompare outcome st) = allProjectsData st"
    "projectsContainer st \<longrightarrow>
            containerElement (fetchProjects localeCompare outcome st)
              = map_option (\<lambda>_. UnableToLoad) (containerElement st)"
    using assms by (auto simp: fetchProjects_def Let_def)
  then show ?thesis by (simp add: events_frame)
qed

theorem fetch_failure_handling_witness:
  "visibilityEngine waitingPage = None
   \<and> projectsContainer waitingPage
   \<and> containerElement (fetchProjects ordinalCompare InvalidJson waitingPage) = Some UnableToLoad
   \<and> visibilityEngine (foldl (dispatch ordinalCompare)
         (fetchProjects ordinalCompare InvalidJson waitingPage)
         [SearchInput ''web'', FilterClick ''ai'', ClearClick]) = None
   \<and> fetchCount (foldl (dispatch ordinalCompare)
         (fetchProjects ordinalCompare InvalidJson waitingPage)
         [SearchInput ''web'', FilterClick ''ai'', ClearClick]) = 1"
  using fetch_failure_handling [where outcome = InvalidJson and st = waitingPage
      and localeCompare = ordinalCompare and events = "[SearchInput ''web'', FilterClick ''ai'', ClearClick]"]
  by (simp add: waitingPage_def)

text \<open>
  Claim C7 at a page whose set-up ran before the container was in the document. The
  variable \<open>projectsContainer\<close> is still \<^verbatim>\<open>null\<close> although the element is there by now.
  When the request fails, the \<^verbatim>\<open>catch\<close> block tests the variable and writes nothing:
  the container shows what it showed before, not the message. \<^verbatim>\<open>renderProjects\<close> on
  the same state looks the element up again and does write into it.
\<close>

theorem fetch_failure_message_missing:
  "visibilityEngine failedPage = None
   \<and> projectsContainer failedPage = False
   \<and> containerElement failedPage = Some Initial
   \<and> containerElement (fetchProjects ordinalCompare NetworkError failedPage) = Some Initial
   \<and> containerElement (renderProjects ordinalCompare failedPage) = Some NoProjectsFound"
  by (simp add: fetchProjects_def failedPage_def renderProjects_def fallbackFilter_def
      sortProjects_def paginate_def js_slice_def itemsPerPage_def)

text \<open>
  Claim C10. The clear action empties the search box and resets the engine (empty search
  text, category \<open>all\<close>), sets \<open>currentCategory\<close> to \<open>all\<close> and \<open>currentPage\<close> to 1, and
  makes the sort control display \<open>default\<close>; \<open>currentSort\<close> keeps its value, and the
  render that ends the action runs with that old value.
\<close>

theorem clear_keeps_currentSort:
  "searchInput (on_clear_click localeCompare st) = (case searchInput st of Some _ \<Rightarrow> Some [] | None \<Rightarrow> None)
   \<and> visibilityEngine (on_clear_click localeCompare st) = map_option reset (visibilityEngine st)
   \<and> currentCategory (on_clear_click localeCompare st) = ''all''
   \<and> currentPage (on_clear_click localeCompare st) = 1
   \<and> sortSelect (on_clear_click localeCompare st)
       = (case sortSelect st of Some _ \<Rightarrow> Some ''default'' | None \<Rightarrow> None)
   \<and> currentSort (on_clear_click localeCompare st) = currentSort st
   \<and> (\<exists>st'. currentSort st' = currentSort st \<and> on_clear_click localeCompare st = renderProjects localeCompare st')"
proof -
  have "\<exists>st'. currentSort st' = currentSort st \<and> on_clear_click localeCompare st = renderProjects localeCompare st'"
    unfolding on_clear_click_def by (rule exI, rule conjI [OF _ refl]) simp
  then show ?thesis
    by (simp add: on_clear_click_def renderProjects_frame split: option.splits)
qed

text \<open>
  An instance: on a page sorted by \<open>za\<close>, the clear action makes the control display
  \<open>default\<close> and still shows the three records in descending order of title.
\<close>

lemma clear_after_za:
  "sortSelect (on_clear_click ordinalCompare loadedPage) = Some ''default''
   \<and> currentSort (on_clear_click ordinalCompare loadedPage) = ''za''
   \<and> containerElement (on_clear_click ordinalCompare loadedPage)
       = Some (Cards [webScraper, weatherApp, chatBot])"
  by (simp add: on_clear_click_def renderProjects_def loadedPage_def construct_def reset_def
      setSearchQuery_def
      getVisibleProjects_def categoryPredicate_def searchPredicate_def sortProjects_def
      js_sort_def paginate_def js_slice_def itemsPerPage_def weatherApp_def chatBot_def
      webScraper_def)

subsection \<open>Category counts\<close>













text \<open>
  Taken as a function, the fallback filter compares a missing category as the empty
  string (line 336), not as \<open>unknown\<close>; by the theorem above no record reaches it.
\<close>

lemma fallbackFilter_missing_category:
  "fallbackFilter ''unknown'' [webScraper] = [] \<and> fallbackFilter [] [webScraper] = [webScraper]"
  by (simp add: fallbackFilter_def webScraper_def toLowerCase_def lower_char_def)

subsection \<open>Start-up\<close>

lemma loads_run:
  "foldl startupStep s (replicate n ComponentLoaded) =
     \<lparr>componentsLoaded = componentsLoaded s + n,
      initCalls = initCalls s +
        (if componentsLoaded s < totalComponents \<and> totalComponents \<le> componentsLoaded s + n
         then 1 else 0)\<rparr>"
proof (induction n arbitrary: s)
  case 0
  show ?case by simp
next
  case (Suc n)
  show ?case
    by (simp add: Suc.IH on_componentLoaded_def initializeApp_def Let_def totalComponents_def)
qed

lemma startup_init_count:
  "initCalls (pageLoad (replicate k ComponentLoaded @ FallbackTimeout # replicate j ComponentLoaded))
     = (if k < totalComponents then 1 else 0) + (if k < totalComponents \<and> totalComponents \<le> k + j then 1 else 0)
       + (if totalComponents \<le> k then 1 else 0)"
  by (simp add: pageLoad_def loads_run on_fallback_timeout_def initializeApp_def totalComponents_def)

text \<open>
  Claim C9 at two event orders. When the fallback timer fires after five components and
  the sixth component arrives later, \<open>initializeApp\<close> runs twice; when all six
  components arrive before the timer, it runs once.
\<close>

theorem startup_double_initialization:
  "initCalls (pageLoad [ComponentLoaded, ComponentLoaded, ComponentLoaded, ComponentLoaded,
                        ComponentLoaded, FallbackTimeout, ComponentLoaded]) = 2
   \<and> initCalls (pageLoad [ComponentLoaded, ComponentLoaded, ComponentLoaded, ComponentLoaded,
                        ComponentLoaded, ComponentLoaded, FallbackTimeout]) = 1"
  by (simp add: pageLoad_def on_componentLoaded_def on_fallback_timeout_def initializeApp_def
      totalComponents_def)

end
